theory Spec2Isabelle
  imports Main "HOL-Library.Word"
begin

section \<open>Height\<close>

text \<open>
  Go's \<open>uint64\<close> and \<open>int64\<close> are both 64-bit words. The conversion
  \<open>int64(x)\<close> of a \<open>uint64\<close> keeps the bits, subtraction wraps modulo \<open>2 ^ 64\<close>,
  and the comparisons \<open>cmp < 0\<close>, \<open>cmp > 0\<close> on an \<open>int64\<close> read the word in
  two's complement (\<open>sint\<close>). Comparisons on \<open>uint64\<close> are the unsigned order
  of the word type.
\<close>

type_synonym uint64 = "64 word"
type_synonym int64 = "64 word"

record Height =
  EpochNumber :: uint64
  EpochHeight :: uint64

definition NewHeight :: "uint64 \<Rightarrow> uint64 \<Rightarrow> Height" where
  "NewHeight epochNumber epochHeight =
     \<lparr>EpochNumber = epochNumber, EpochHeight = epochHeight\<rparr>"

text \<open>\<open>int64(x)\<close> for \<open>x\<close> of type \<open>uint64\<close>: the same bits.\<close>

definition to_int64 :: "uint64 \<Rightarrow> int64" where
  "to_int64 x = x"

text \<open>
  \<open>Height.Compare\<close>: the difference of the converted fields, then its sign.
  The result is one of \<open>-1\<close>, \<open>0\<close>, \<open>1\<close>, so it is given as an \<open>int\<close>.
\<close>

definition Compare :: "Height \<Rightarrow> Height \<Rightarrow> int" where
  "Compare h other =
     (let cmp = (if EpochNumber h \<noteq> EpochNumber other
                 then to_int64 (EpochNumber h) - to_int64 (EpochNumber other)
                 else to_int64 (EpochHeight h) - to_int64 (EpochHeight other))
      in if sint cmp < 0 then - 1
         else if sint cmp > 0 then 1
         else 0)"

definition LT :: "Height \<Rightarrow> Height \<Rightarrow> bool" where
  "LT h other = (Compare h other = - 1)"

definition GT :: "Height \<Rightarrow> Height \<Rightarrow> bool" where
  "GT h other = (Compare h other = 1)"

definition EQ :: "Height \<Rightarrow> Height \<Rightarrow> bool" where
  "EQ h other = (Compare h other = 0)"

text \<open>\<open>Height.Decrement\<close>: the zero value \<open>Height{}\<close> and \<open>false\<close> when it fails.\<close>

definition Decrement :: "Height \<Rightarrow> Height \<times> bool" where
  "Decrement h =
     (if EpochHeight h \<le> 1
      then (\<lparr>EpochNumber = 0, EpochHeight = 0\<rparr>, False)
      else (NewHeight (EpochNumber h) (EpochHeight h - 1), True))"

definition Valid :: "Height \<Rightarrow> bool" where
  "Valid h = (EpochHeight h \<noteq> 0)"

definition IsZero :: "Height \<Rightarrow> bool" where
  "IsZero h = (EpochNumber h = 0 \<and> EpochHeight h = 0)"

text \<open>
  The order the documentation of \<open>Compare\<close> describes: the higher epoch number is
  the higher height, equal epoch numbers are decided by the epoch height, both read
  as unsigned numbers.
\<close>

definition lex_compare :: "Height \<Rightarrow> Height \<Rightarrow> int" where
  "lex_compare a b =
     (if unat (EpochNumber a) > unat (EpochNumber b) then 1
      else if unat (EpochNumber a) < unat (EpochNumber b) then - 1
      else if unat (EpochHeight a) > unat (EpochHeight b) then 1
      else if unat (EpochHeight a) < unat (EpochHeight b) then - 1
      else 0)"

section \<open>ClientType\<close>

text \<open>
  \<open>ClientType\<close> is a \<open>byte\<close>. The three client types and their string
  representations are the constants of the source.
\<close>

type_synonym ClientType = "8 word"

definition SoloMachine :: ClientType where
  "SoloMachine = 6"

definition Tendermint :: ClientType where
  "Tendermint = 7"

definition Localhost :: ClientType where
  "Localhost = 9"

definition ClientTypeSoloMachine :: string where
  "ClientTypeSoloMachine = ''solomachine''"

definition ClientTypeTendermint :: string where
  "ClientTypeTendermint = ''tendermint''"

definition ClientTypeLocalHost :: string where
  "ClientTypeLocalHost = ''localhost''"

text \<open>
  \<open>ClientType.String\<close>: the switch has the cases \<open>Tendermint\<close> and \<open>Localhost\<close>
  and a default.
\<close>

definition ClientType_String :: "ClientType \<Rightarrow> string" where
  "ClientType_String ct =
     (if ct = Tendermint then ClientTypeTendermint
      else if ct = Localhost then ClientTypeLocalHost
      else '''')"

text \<open>
  \<open>ClientTypeFromString\<close>: the switch has the cases \<open>ClientTypeTendermint\<close> and
  \<open>ClientTypeLocalHost\<close> and a default.
\<close>

definition ClientTypeFromString :: "string \<Rightarrow> ClientType" where
  "ClientTypeFromString clientType =
     (if clientType = ClientTypeTendermint then Tendermint
      else if clientType = ClientTypeLocalHost then Localhost
      else 0)"

type_synonym bytes = "8 word list"

text \<open>
  \<open>json.Marshal\<close> and \<open>json.Unmarshal\<close> belong to Go's standard library. They are
  parameters of the model: \<open>json_Marshal\<close> maps a string to the pair of the bytes
  and the error it returns, \<open>json_Unmarshal\<close> maps the input bytes to the error
  or to the decoded string.
\<close>

definition MarshalJSON ::
  "(string \<Rightarrow> bytes \<times> 'e option) \<Rightarrow> ClientType \<Rightarrow> bytes \<times> 'e option" where
  "MarshalJSON json_Marshal ct = json_Marshal (ClientType_String ct)"

text \<open>
  The errors of \<open>UnmarshalJSON\<close>: the error of \<open>json.Unmarshal\<close>, passed on, or
  \<open>ErrInvalidType\<close> wrapped with the message \<open>invalid client type '%s'\<close>, kept
  here with the string of the message.
\<close>

datatype 'e error = JSONError 'e | ErrInvalidType string

text \<open>
  \<open>ClientType.UnmarshalJSON\<close> has a pointer receiver: the model takes the value
  of the receiver before the call and returns its value after the call together
  with the error (\<open>None\<close> for \<open>nil\<close>).
\<close>

definition UnmarshalJSON ::
  "(bytes \<Rightarrow> 'e + string) \<Rightarrow> ClientType \<Rightarrow> bytes \<Rightarrow> ClientType \<times> 'e error option" where
  "UnmarshalJSON json_Unmarshal ct data =
     (case json_Unmarshal data of
        Inl err \<Rightarrow> (ct, Some (JSONError err))
      | Inr s \<Rightarrow>
          (let clientType = ClientTypeFromString s
           in if clientType = 0 then (ct, Some (ErrInvalidType s))
              else (clientType, None)))"

section \<open>The client state contract\<close>

text \<open>
  Modelled from the spec: the implementations of the \<open>ClientState\<close> interface
  (\<open>IsFrozen\<close>, \<open>CheckHeaderAndUpdateState\<close>, \<open>CheckMisbehaviourAndUpdateState\<close>
  and the eight \<open>Verify*\<close> operations) and the handlers that persist their
  results. The source declares the interface only. The definitions below follow
  the specification's data model (section 3), component design (sections 4.3 and
  4.5) and error taxonomy (section 7).
\<close>

datatype client_error =
    InvalidClientType | InvalidHeader | InvalidMisbehaviour | ClientFrozen | ClientNotFound
  | ConsensusStateNotFound | ProofSpecMismatch | ProofVerificationFailed | InvalidHeight

text \<open>
  Modelled from the spec: the fields of a client state. \<open>frozen_height\<close> is zero
  when the client is active; its type is that of \<open>GetFrozenHeight\<close> in the
  interface.
\<close>

record 'spec ClientState =
  chain_id :: string
  client_type :: ClientType
  latest_height :: Height
  frozen_height :: uint64
  proof_specs :: "'spec list"

text \<open>
  Modelled from the spec: a consensus state, and the consensus states of one
  client keyed by height.
\<close>

record 'root ConsensusState =
  cons_client_type :: ClientType
  cons_height :: Height
  cons_root :: 'root
  cons_timestamp :: uint64

type_synonym 'root consensus_store = "Height \<rightharpoonup> 'root ConsensusState"

text \<open>Modelled from the spec: a client is frozen when its frozen height is set.\<close>

definition IsFrozen :: "'spec ClientState \<Rightarrow> bool" where
  "IsFrozen cs = (frozen_height cs \<noteq> 0)"

text \<open>
  Modelled from the spec: the fact types of the verification operations with the
  arguments that identify them (client id, connection id, port and channel id,
  sequence number). The key of a fact under a Merkle prefix is an external
  contract, so its derivation is a parameter of the engine, as are the proof
  system and the structural requirements a proof claims to use.
\<close>

datatype fact =
    ClientStateFact string
  | ClientConsensusStateFact string Height
  | ConnectionFact string
  | ChannelFact string string
  | PacketCommitmentFact string string uint64
  | PacketAcknowledgementFact string string uint64
  | NextSequenceRecvFact string string

record ('spec, 'root, 'pf, 'prefix, 'key, 'v) engine =
  proof_spec_of :: "'pf \<Rightarrow> 'spec list"
  derive_key :: "'prefix \<Rightarrow> fact \<Rightarrow> 'key"
  evaluate :: "'spec list \<Rightarrow> 'root \<Rightarrow> 'pf \<Rightarrow> 'key \<Rightarrow> 'v option \<Rightarrow> bool"

text \<open>
  Modelled from the spec: the generic verification primitive, in the order of
  section 4.3: (1) reject a frozen client, (2) require the proof's structural
  requirements to match the client's proof specs, (3) look up the consensus state
  recorded at the height, (4) evaluate the proof against its root. The expected
  value is \<open>Some\<close> for membership and \<open>None\<close> for absence.
\<close>

definition verify ::
  "('spec, 'root, 'pf, 'prefix, 'key, 'v) engine \<Rightarrow> 'spec ClientState \<Rightarrow>
   'root consensus_store \<Rightarrow> Height \<Rightarrow> 'prefix \<Rightarrow> 'pf \<Rightarrow> fact \<Rightarrow> 'v option \<Rightarrow>
   client_error + unit" where
  "verify eng cs store height prefix pf fct expected =
     (if IsFrozen cs then Inl ClientFrozen
      else if proof_spec_of eng pf \<noteq> proof_specs cs then Inl ProofSpecMismatch
      else case store height of
             None \<Rightarrow> Inl ConsensusStateNotFound
           | Some consState \<Rightarrow>
               if evaluate eng (proof_specs cs) (cons_root consState) pf
                    (derive_key eng prefix fct) expected
               then Inr ()
               else Inl ProofVerificationFailed)"

text \<open>
  Modelled from the spec: the eight verification operations, each the generic
  primitive at its fact type; only the absence of an acknowledgement checks
  non-membership.
\<close>

definition VerifyClientState where
  "VerifyClientState eng cs store height prefix counterpartyClientIdentifier pf clientState =
     verify eng cs store height prefix pf
       (ClientStateFact counterpartyClientIdentifier) (Some clientState)"

definition VerifyClientConsensusState where
  "VerifyClientConsensusState eng cs store height counterpartyClientIdentifier consensusHeight
       prefix pf consensusState =
     verify eng cs store height prefix pf
       (ClientConsensusStateFact counterpartyClientIdentifier consensusHeight)
       (Some consensusState)"

definition VerifyConnectionState where
  "VerifyConnectionState eng cs store height prefix pf connectionID connectionEnd =
     verify eng cs store height prefix pf (ConnectionFact connectionID) (Some connectionEnd)"

definition VerifyChannelState where
  "VerifyChannelState eng cs store height prefix pf portID channelID channel =
     verify eng cs store height prefix pf (ChannelFact portID channelID) (Some channel)"

definition VerifyPacketCommitment where
  "VerifyPacketCommitment eng cs store height prefix pf portID channelID sequence
       commitmentBytes =
     verify eng cs store height prefix pf
       (PacketCommitmentFact portID channelID sequence) (Some commitmentBytes)"

definition VerifyPacketAcknowledgement where
  "VerifyPacketAcknowledgement eng cs store height prefix pf portID channelID sequence
       acknowledgement =
     verify eng cs store height prefix pf
       (PacketAcknowledgementFact portID channelID sequence) (Some acknowledgement)"

definition VerifyPacketAcknowledgementAbsence where
  "VerifyPacketAcknowledgementAbsence eng cs store height prefix pf portID channelID sequence =
     verify eng cs store height prefix pf
       (PacketAcknowledgementFact portID channelID sequence) None"

definition VerifyNextSequenceRecv where
  "VerifyNextSequenceRecv eng cs store height prefix pf portID channelID nextSequenceRecv =
     verify eng cs store height prefix pf
       (NextSequenceRecvFact portID channelID) (Some nextSequenceRecv)"

text \<open>
  Modelled from the spec: what a client variant plugs in behind the contract. The
  header check of the variant gives the consensus state a header authenticates, or
  nothing; the misbehaviour check says whether both halves of the evidence are
  authenticated and conflict.
\<close>

record ('hdr, 'mis, 'spec, 'root) variant =
  header_height :: "'hdr \<Rightarrow> Height"
  authenticate ::
    "'spec ClientState \<Rightarrow> 'root consensus_store \<Rightarrow> 'hdr \<Rightarrow> 'root ConsensusState option"
  misbehaviour_height :: "'mis \<Rightarrow> uint64"
  conflicting :: "'spec ClientState \<Rightarrow> 'root consensus_store \<Rightarrow> 'mis \<Rightarrow> bool"

text \<open>
  Modelled from the spec: a header update. A frozen client fails with
  \<open>ClientFrozen\<close>. A header the variant does not authenticate is invalid. At a
  height that already has a consensus state the same content is redundant and
  different content is rejected; at a new height the header must be after the
  latest height, which it then becomes.
\<close>

definition CheckHeaderAndUpdateState ::
  "('hdr, 'mis, 'spec, 'root) variant \<Rightarrow> 'spec ClientState \<Rightarrow> 'root consensus_store \<Rightarrow>
   'hdr \<Rightarrow> client_error + ('spec ClientState \<times> 'root ConsensusState)" where
  "CheckHeaderAndUpdateState v cs store header =
     (if IsFrozen cs then Inl ClientFrozen
      else case authenticate v cs store header of
             None \<Rightarrow> Inl InvalidHeader
           | Some consState \<Rightarrow>
               (case store (header_height v header) of
                  Some existing \<Rightarrow>
                    if existing = consState then Inr (cs, existing) else Inl InvalidHeader
                | None \<Rightarrow>
                    if GT (header_height v header) (latest_height cs)
                    then Inr (cs\<lparr>latest_height := header_height v header\<rparr>, consState)
                    else Inl InvalidHeader))"

text \<open>
  Modelled from the spec: a misbehaviour check. \<open>ClientFrozen\<close> is the error of
  any operation attempted on a frozen client (section 7); on an active client,
  conflicting authenticated evidence sets the frozen height to the misbehaviour
  height, anything else is \<open>InvalidMisbehaviour\<close>.
\<close>

definition CheckMisbehaviourAndUpdateState ::
  "('hdr, 'mis, 'spec, 'root) variant \<Rightarrow> 'spec ClientState \<Rightarrow> 'root consensus_store \<Rightarrow>
   'mis \<Rightarrow> client_error + 'spec ClientState" where
  "CheckMisbehaviourAndUpdateState v cs store misbehaviour =
     (if IsFrozen cs then Inl ClientFrozen
      else if conflicting v cs store misbehaviour
      then Inr (cs\<lparr>frozen_height := misbehaviour_height v misbehaviour\<rparr>)
      else Inl InvalidMisbehaviour)"

text \<open>
  Modelled from the spec: the two messages that change a client, and their
  handling. The result of a successful operation is persisted; a failed one
  changes nothing. \<open>handle_all\<close> runs a sequence of messages.
\<close>

datatype ('hdr, 'mis) msg = UpdateClient 'hdr | SubmitMisbehaviour 'mis

fun handle ::
  "('hdr, 'mis, 'spec, 'root) variant \<Rightarrow> 'spec ClientState \<times> 'root consensus_store \<Rightarrow>
   ('hdr, 'mis) msg \<Rightarrow> 'spec ClientState \<times> 'root consensus_store" where
  "handle v (cs, store) (UpdateClient header) =
     (case CheckHeaderAndUpdateState v cs store header of
        Inl err \<Rightarrow> (cs, store)
      | Inr (cs', consState) \<Rightarrow> (cs', store(header_height v header \<mapsto> consState)))"
| "handle v (cs, store) (SubmitMisbehaviour misbehaviour) =
     (case CheckMisbehaviourAndUpdateState v cs store misbehaviour of
        Inl err \<Rightarrow> (cs, store)
      | Inr cs' \<Rightarrow> (cs', store))"

fun handle_all ::
  "('hdr, 'mis, 'spec, 'root) variant \<Rightarrow> 'spec ClientState \<times> 'root consensus_store \<Rightarrow>
   ('hdr, 'mis) msg list \<Rightarrow> 'spec ClientState \<times> 'root consensus_store" where
  "handle_all v st [] = st"
| "handle_all v st (m # ms) = handle_all v (handle v st m) ms"

text \<open>
  A concrete instance for evaluation: a variant that authenticates every header
  with the consensus state below and finds every evidence conflicting, an engine
  that accepts every proof, and a client with one recorded consensus state.
\<close>

definition demo_cons :: "nat ConsensusState" where
  "demo_cons =
     \<lparr>cons_client_type = Tendermint, cons_height = NewHeight 0 101,
      cons_root = 42, cons_timestamp = 1\<rparr>"

definition demo_variant :: "(Height, uint64, nat, nat) variant" where
  "demo_variant =
     \<lparr>header_height = (\<lambda>h. h), authenticate = (\<lambda>cs store h. Some demo_cons),
      misbehaviour_height = (\<lambda>m. m), conflicting = (\<lambda>cs store m. True)\<rparr>"

definition demo_engine :: "(nat, nat, nat, unit, fact, bytes) engine" where
  "demo_engine =
     \<lparr>proof_spec_of = (\<lambda>p. [1]), derive_key = (\<lambda>p f. f),
      evaluate = (\<lambda>specs r p k e. True)\<rparr>"

definition demo_client :: "uint64 \<Rightarrow> nat ClientState" where
  "demo_client frozen =
     \<lparr>chain_id = ''chain'', client_type = Tendermint, latest_height = NewHeight 0 100,
      frozen_height = frozen, proof_specs = [1]\<rparr>"

definition demo_store :: "nat consensus_store" where
  "demo_store = [NewHeight 0 100 \<mapsto> demo_cons\<lparr>cons_height := NewHeight 0 100\<rparr>]"

section \<open>Properties of Height\<close>

lemma Compare_values: "Compare a b = - 1 \<or> Compare a b = 0 \<or> Compare a b = 1"
  by (simp add: Compare_def Let_def)

lemma Compare_refl: "Compare a a = 0"
  by (simp add: Compare_def)

text \<open>
  Where every field is below \<open>2 ^ 63\<close> the conversions and the subtraction do
  not wrap, and \<open>Compare\<close> is the lexicographic order.
\<close>

lemma sint_small:
  fixes x :: "64 word"
  assumes "unat x < 2 ^ 63"
  shows "sint x = uint x"
proof -
  have "uint x < 2 ^ 63"
    using assms by (simp add: unat_eq_nat_uint nat_less_iff del: nat_uint_eq)
  moreover have "- (2 ^ 63) \<le> uint x"
    by (rule order_trans [of _ 0]) simp_all
  ultimately have "signed_take_bit 63 (uint x) = uint x"
    by (intro signed_take_bit_int_eq_self)
  then show ?thesis
    by (simp add: sint_uint)
qed

lemma sint_diff_small:
  fixes x y :: "64 word"
  assumes "unat x < 2 ^ 63" "unat y < 2 ^ 63"
  shows "sint (x - y) = uint x - uint y"
proof -
  have bx: "uint x < 2 ^ 63" and by': "uint y < 2 ^ 63"
    using assms by (simp_all add: unat_eq_nat_uint nat_less_iff del: nat_uint_eq)
  have nx: "0 \<le> uint x" and ny: "0 \<le> uint y"
    by simp_all
  have "sint (x - y) = signed_take_bit 63 (sint x - sint y)"
    by (simp add: sint_word_diff)
  also have "\<dots> = signed_take_bit 63 (uint x - uint y)"
    using assms by (simp only: sint_small)
  also have "\<dots> = uint x - uint y"
    using bx by' nx ny by (intro signed_take_bit_int_eq_self) linarith+
  finally show ?thesis .
qed

lemma sint_diff_sign:
  fixes x y :: "64 word"
  assumes "unat x < 2 ^ 63" "unat y < 2 ^ 63"
  shows "sint (x - y) < 0 \<longleftrightarrow> unat x < unat y"
    and "0 < sint (x - y) \<longleftrightarrow> unat y < unat x"
  using assms
  by (simp_all only: sint_diff_small word_less_nat_alt [symmetric] word_less_def) linarith+

lemma Compare_lex_small:
  assumes "unat (EpochNumber a) < 2 ^ 63" "unat (EpochNumber b) < 2 ^ 63"
    "unat (EpochHeight a) < 2 ^ 63" "unat (EpochHeight b) < 2 ^ 63"
  shows "Compare a b = lex_compare a b"
proof (cases "EpochNumber a = EpochNumber b")
  case True
  then show ?thesis
    using assms sint_diff_sign [of "EpochHeight a" "EpochHeight b"]
    by (simp add: Compare_def lex_compare_def to_int64_def Let_def)
next
  case False
  then have "unat (EpochNumber a) \<noteq> unat (EpochNumber b)"
    by (simp add: word_unat_eq_iff)
  then show ?thesis
    using False assms sint_diff_sign [of "EpochNumber a" "EpochNumber b"]
    by (auto simp add: Compare_def lex_compare_def to_int64_def Let_def)
qed

text \<open>
  Claim C1. \<open>a.Compare(b)\<close> is stated to be lexicographic for all \<open>uint64\<close> field
  values: \<open>1\<close> when \<open>a.EpochNumber > b.EpochNumber\<close>, and so on. The code subtracts
  the fields after converting them to \<open>int64\<close>, so at
  \<open>a = Height{9223372036854775808, 1}\<close> (epoch number \<open>2 ^ 63\<close>) and
  \<open>b = Height{0, 1}\<close> the difference is the least \<open>int64\<close> and \<open>Compare\<close> returns
  \<open>-1\<close>, although \<open>a\<close> has the higher epoch number and the documented order
  gives \<open>1\<close>.
\<close>

theorem Compare_not_lexicographic:
  "Compare (NewHeight 9223372036854775808 1) (NewHeight 0 1) = - 1
   \<and> lex_compare (NewHeight 9223372036854775808 1) (NewHeight 0 1) = 1"
  by (simp add: Compare_def NewHeight_def to_int64_def lex_compare_def)

text \<open>
  Claim C2. \<open>Compare\<close> is stated to be antisymmetric in sign, transitive and
  reflexive. Reflexivity holds, but with the wrapped subtraction both
  \<open>Height{2 ^ 63, 0}.Compare(Height{0, 0})\<close> and
  \<open>Height{0, 0}.Compare(Height{2 ^ 63, 0})\<close> are \<open>-1\<close>, and for
  \<open>a = Height{0, 1}\<close>, \<open>b = Height{2 ^ 63 - 1, 1}\<close>, \<open>c = Height{2 ^ 63 + 1, 1}\<close>
  the code gives \<open>a.Compare(b) = -1\<close>, \<open>b.Compare(c) = -1\<close> and \<open>a.Compare(c) = 1\<close>.
\<close>

theorem Compare_not_antisymmetric_not_transitive:
  "Compare (NewHeight 9223372036854775808 0) (NewHeight 0 0) = - 1
   \<and> Compare (NewHeight 0 0) (NewHeight 9223372036854775808 0) = - 1
   \<and> Compare (NewHeight 0 1) (NewHeight 9223372036854775807 1) = - 1
   \<and> Compare (NewHeight 9223372036854775807 1) (NewHeight 9223372036854775809 1) = - 1
   \<and> Compare (NewHeight 0 1) (NewHeight 9223372036854775809 1) = 1"
  by (simp add: Compare_def NewHeight_def to_int64_def)

text \<open>
  Claim C6. For every height \<open>h\<close>: if \<open>h.EpochHeight > 1\<close> then \<open>h.Decrement()\<close>
  returns the height with the same epoch number and the epoch height one less
  (as a number, without wrapping), which is valid, and \<open>true\<close>; otherwise it
  returns \<open>false\<close>. \<open>Height{1,5}.Decrement()\<close> is \<open>(Height{1,4}, true)\<close> and
  \<open>Height{1,1}.Decrement()\<close> fails.
\<close>

theorem Decrement_spec:
  "(1 < EpochHeight h \<longrightarrow>
      Decrement h = (\<lparr>EpochNumber = EpochNumber h, EpochHeight = EpochHeight h - 1\<rparr>, True)
      \<and> unat (EpochHeight (fst (Decrement h))) = unat (EpochHeight h) - 1
      \<and> Valid (fst (Decrement h)))
   \<and> (\<not> 1 < EpochHeight h \<longrightarrow> snd (Decrement h) = False)
   \<and> Decrement (NewHeight 1 5) = (NewHeight 1 4, True)
   \<and> snd (Decrement (NewHeight 1 1)) = False"
  apply (simp add: Decrement_def NewHeight_def Valid_def not_less)
  apply (auto simp: unat_sub word_le_nat_alt word_less_nat_alt)
  done

theorem Decrement_spec_witness:
  "1 < EpochHeight (NewHeight 7 9)
   \<and> Decrement (NewHeight 7 9) = (NewHeight 7 8, True)
   \<and> Valid (fst (Decrement (NewHeight 7 9)))
   \<and> \<not> 1 < EpochHeight (NewHeight 3 0)
   \<and> snd (Decrement (NewHeight 3 0)) = False"
proof -
  have up: "1 < EpochHeight (NewHeight 7 9)"
    by (simp add: NewHeight_def)
  have down: "\<not> 1 < EpochHeight (NewHeight 3 0)"
    by (simp add: NewHeight_def)
  from up Decrement_spec [of "NewHeight 7 9"]
  have "Decrement (NewHeight 7 9)
          = (\<lparr>EpochNumber = EpochNumber (NewHeight 7 9),
              EpochHeight = EpochHeight (NewHeight 7 9) - 1\<rparr>, True)"
    and ok: "Valid (fst (Decrement (NewHeight 7 9)))"
    by blast+
  then have eq: "Decrement (NewHeight 7 9) = (NewHeight 7 8, True)"
    by (simp add: NewHeight_def)
  from down Decrement_spec [of "NewHeight 3 0"]
  have "snd (Decrement (NewHeight 3 0)) = False"
    by blast
  with up down eq ok show ?thesis
    by blast
qed

text \<open>
  Claim C7. For every height \<open>h\<close>, \<open>h.Valid()\<close> is true exactly when
  \<open>h.EpochHeight\<close> is not zero, that is when it is greater than zero, whatever the
  epoch number; \<open>Height{0,0}.IsZero()\<close> is true and \<open>Height{0,0}.Valid()\<close> is false.
\<close>

theorem Valid_IsZero_spec:
  "Valid h = (EpochHeight h \<noteq> 0)
   \<and> Valid h = (0 < unat (EpochHeight h))
   \<and> Valid (NewHeight n (EpochHeight h)) = Valid h
   \<and> IsZero (NewHeight 0 0)
   \<and> \<not> Valid (NewHeight 0 0)"
  by (simp add: Valid_def IsZero_def NewHeight_def unat_gt_0)

text \<open>
  Claim C8. For every pair of heights \<open>a\<close>, \<open>b\<close>, exactly one of \<open>a.LT(b)\<close>,
  \<open>a.GT(b)\<close>, \<open>a.EQ(b)\<close> is true (the number of true ones is one), and
  \<open>h.EQ(h)\<close> is true for every height \<open>h\<close>.
\<close>

theorem LT_GT_EQ_exactly_one:
  "of_bool (LT a b) + of_bool (GT a b) + of_bool (EQ a b) = (1::nat) \<and> EQ h h"
  by (simp add: LT_def GT_def EQ_def Compare_def Let_def)

section \<open>Properties of ClientType\<close>

lemmas ct_defs = SoloMachine_def Tendermint_def Localhost_def
  ClientTypeSoloMachine_def ClientTypeTendermint_def ClientTypeLocalHost_def

lemma ClientTypeFromString_unknown:
  "s \<noteq> ClientTypeTendermint \<Longrightarrow> s \<noteq> ClientTypeLocalHost \<Longrightarrow> ClientTypeFromString s = 0"
  by (simp add: ClientTypeFromString_def)

lemma ClientTypeFromString_range:
  "ClientTypeFromString s = 0 \<or> ClientTypeFromString s = Tendermint
   \<or> ClientTypeFromString s = Localhost"
  by (simp add: ClientTypeFromString_def)

lemma UnmarshalJSON_error_unchanged:
  "snd (UnmarshalJSON json_Unmarshal ct data) \<noteq> None \<Longrightarrow>
   fst (UnmarshalJSON json_Unmarshal ct data) = ct"
  by (simp add: UnmarshalJSON_def Let_def split: sum.splits if_splits)

text \<open>
  Claim C3. Decoding the canonical string of every registered client type
  (\<open>SoloMachine\<close>, \<open>Tendermint\<close>, \<open>Localhost\<close>) is stated to give the type back.
  This holds for \<open>Tendermint\<close> and \<open>Localhost\<close>. For \<open>SoloMachine\<close>,
  \<open>String()\<close> falls to the default case and returns the empty string, and
  \<open>ClientTypeFromString\<close> returns \<open>0\<close> for it, as it also does for
  \<open>ClientTypeSoloMachine\<close>.
\<close>

theorem ClientType_roundtrip_misses_SoloMachine:
  "ClientTypeFromString (ClientType_String SoloMachine) = 0
   \<and> ClientTypeFromString (ClientType_String SoloMachine) \<noteq> SoloMachine
   \<and> ClientTypeFromString ClientTypeSoloMachine = 0
   \<and> ClientTypeFromString (ClientType_String Tendermint) = Tendermint
   \<and> ClientTypeFromString (ClientType_String Localhost) = Localhost"
  by (simp add: ClientTypeFromString_def ClientType_String_def ct_defs)

text \<open>
  Claim C4. \<open>String()\<close> is stated to return \<open>solomachine\<close>, \<open>tendermint\<close>,
  \<open>localhost\<close> for the three registered client types, and \<open>MarshalJSON\<close> to
  emit that string as JSON. This holds for \<open>Tendermint\<close> and \<open>Localhost\<close>. For
  \<open>SoloMachine\<close> the code returns the empty string, and \<open>MarshalJSON\<close> gives
  what \<open>json.Marshal\<close> gives for the empty string.
\<close>

theorem ClientType_String_misses_SoloMachine:
  "ClientType_String SoloMachine = ''''
   \<and> ClientType_String SoloMachine \<noteq> ClientTypeSoloMachine
   \<and> MarshalJSON json_Marshal SoloMachine = json_Marshal ''''
   \<and> ClientType_String Tendermint = ''tendermint''
   \<and> ClientType_String Localhost = ''localhost''
   \<and> MarshalJSON json_Marshal Tendermint = json_Marshal ''tendermint''
   \<and> MarshalJSON json_Marshal Localhost = json_Marshal ''localhost''"
  by (simp add: MarshalJSON_def ClientType_String_def ct_defs)

text \<open>
  Claim C5. For every string \<open>s\<close> that is not one of the canonical client-type
  strings, \<open>ClientTypeFromString(s)\<close> returns \<open>0\<close>, which is none of the valid
  tags, and \<open>UnmarshalJSON\<close> of input that decodes to \<open>s\<close> returns the
  invalid-type error and does not assign to the receiver.
\<close>

theorem ClientTypeFromString_unregistered:
  assumes "s \<noteq> ClientTypeSoloMachine" "s \<noteq> ClientTypeTendermint" "s \<noteq> ClientTypeLocalHost"
  shows "ClientTypeFromString s = 0
    \<and> ClientTypeFromString s \<notin> {SoloMachine, Tendermint, Localhost}
    \<and> (json_Unmarshal data = Inr s \<longrightarrow>
          UnmarshalJSON json_Unmarshal ct data = (ct, Some (ErrInvalidType s)))"
proof -
  have z: "ClientTypeFromString s = 0"
    using assms by (simp add: ClientTypeFromString_unknown)
  have "(0::ClientType) \<notin> {SoloMachine, Tendermint, Localhost}"
    by (simp add: ct_defs)
  moreover have "json_Unmarshal data = Inr s \<Longrightarrow>
      UnmarshalJSON json_Unmarshal ct data = (ct, Some (ErrInvalidType s))"
    by (simp add: UnmarshalJSON_def z)
  ultimately show ?thesis
    using z by simp
qed

theorem ClientTypeFromString_unregistered_witness:
  "''ethereum'' \<noteq> ClientTypeSoloMachine
   \<and> ''ethereum'' \<noteq> ClientTypeTendermint
   \<and> ''ethereum'' \<noteq> ClientTypeLocalHost
   \<and> ClientTypeFromString ''ethereum'' = 0
   \<and> UnmarshalJSON (\<lambda>d. Inr ''ethereum'' :: unit + string) Tendermint []
        = (Tendermint, Some (ErrInvalidType ''ethereum''))"
proof -
  have a: "''ethereum'' \<noteq> ClientTypeSoloMachine" "''ethereum'' \<noteq> ClientTypeTendermint"
    "''ethereum'' \<noteq> ClientTypeLocalHost"
    by (simp_all add: ct_defs)
  from ClientTypeFromString_unregistered
    [OF a, of "\<lambda>d. Inr ''ethereum'' :: unit + string" "[]" Tendermint] a
  show ?thesis by simp
qed

text \<open>
  Claim C10. \<open>UnmarshalJSON\<close> is atomic on failure: for every receiver and every
  input that does not decode to a canonical client-type string (the JSON decoding
  fails, or the decoded string is not recognised), it returns an error and the
  receiver keeps its value; whenever it returns an error the receiver is
  unchanged; and when it returns no error, the input decoded to a string and the
  receiver holds the valid tag of that string.
\<close>

theorem UnmarshalJSON_atomic:
  "((\<forall>s. json_Unmarshal data = Inr s \<longrightarrow>
        s \<notin> {ClientTypeSoloMachine, ClientTypeTendermint, ClientTypeLocalHost}) \<longrightarrow>
      snd (UnmarshalJSON json_Unmarshal ct data) \<noteq> None
      \<and> fst (UnmarshalJSON json_Unmarshal ct data) = ct)
   \<and> (snd (UnmarshalJSON json_Unmarshal ct data) \<noteq> None \<longrightarrow>
        fst (UnmarshalJSON json_Unmarshal ct data) = ct)
   \<and> (snd (UnmarshalJSON json_Unmarshal ct data) = None \<longrightarrow>
        (\<exists>s. json_Unmarshal data = Inr s
           \<and> fst (UnmarshalJSON json_Unmarshal ct data) = ClientTypeFromString s
           \<and> ClientTypeFromString s \<in> {Tendermint, Localhost}))"
proof (cases "json_Unmarshal data")
  case (Inl err)
  then show ?thesis
    by (simp add: UnmarshalJSON_def)
next
  case (Inr s)
  show ?thesis
  proof (cases "ClientTypeFromString s = 0")
    case True
    with Inr show ?thesis
      by (simp add: UnmarshalJSON_def)
  next
    case False
    then have known: "s = ClientTypeTendermint \<or> s = ClientTypeLocalHost"
      using ClientTypeFromString_unknown by blast
    from False ClientTypeFromString_range [of s]
    have "ClientTypeFromString s \<in> {Tendermint, Localhost}"
      by auto
    with Inr False known show ?thesis
      by (simp add: UnmarshalJSON_def)
  qed
qed

theorem UnmarshalJSON_atomic_witness:
  "snd (UnmarshalJSON (\<lambda>d. Inl () :: unit + string) Localhost [123, 125]) \<noteq> None
   \<and> fst (UnmarshalJSON (\<lambda>d. Inl () :: unit + string) Localhost [123, 125]) = Localhost
   \<and> ''ethereum'' \<notin> {ClientTypeSoloMachine, ClientTypeTendermint, ClientTypeLocalHost}
   \<and> snd (UnmarshalJSON (\<lambda>d. Inr ''ethereum'' :: unit + string) Localhost []) \<noteq> None
   \<and> fst (UnmarshalJSON (\<lambda>d. Inr ''ethereum'' :: unit + string) Localhost []) = Localhost
   \<and> snd (UnmarshalJSON (\<lambda>d. Inr ''tendermint'' :: unit + string) Localhost []) = None
   \<and> fst (UnmarshalJSON (\<lambda>d. Inr ''tendermint'' :: unit + string) Localhost [])
        = Tendermint"
proof -
  have h1: "\<forall>s. (Inl () :: unit + string) = Inr s \<longrightarrow>
      s \<notin> {ClientTypeSoloMachine, ClientTypeTendermint, ClientTypeLocalHost}"
    by simp
  have h2: "\<forall>s. (Inr ''ethereum'' :: unit + string) = Inr s \<longrightarrow>
      s \<notin> {ClientTypeSoloMachine, ClientTypeTendermint, ClientTypeLocalHost}"
    by (simp add: ct_defs)
  have ok: "snd (UnmarshalJSON (\<lambda>d. Inr ''tendermint'' :: unit + string) Localhost []) = None"
    by (simp add: UnmarshalJSON_def ClientTypeFromString_def ct_defs)
  have h3: "''ethereum'' \<notin> {ClientTypeSoloMachine, ClientTypeTendermint, ClientTypeLocalHost}"
    by (simp add: ct_defs)
  from h1 UnmarshalJSON_atomic
    [of "\<lambda>d. Inl () :: unit + string" "[123, 125]" Localhost]
  have r1: "snd (UnmarshalJSON (\<lambda>d. Inl () :: unit + string) Localhost [123, 125]) \<noteq> None"
    "fst (UnmarshalJSON (\<lambda>d. Inl () :: unit + string) Localhost [123, 125]) = Localhost"
    by blast+
  from h2 UnmarshalJSON_atomic
    [of "\<lambda>d. Inr ''ethereum'' :: unit + string" "[]" Localhost]
  have r2: "snd (UnmarshalJSON (\<lambda>d. Inr ''ethereum'' :: unit + string) Localhost []) \<noteq> None"
    "fst (UnmarshalJSON (\<lambda>d. Inr ''ethereum'' :: unit + string) Localhost []) = Localhost"
    by blast+
  from ok UnmarshalJSON_atomic
    [of "\<lambda>d. Inr ''tendermint'' :: unit + string" "[]" Localhost]
  have "fst (UnmarshalJSON (\<lambda>d. Inr ''tendermint'' :: unit + string) Localhost [])
      = ClientTypeFromString ''tendermint''"
    by auto
  then have r3: "fst (UnmarshalJSON (\<lambda>d. Inr ''tendermint'' :: unit + string) Localhost [])
      = Tendermint"
    by (simp add: ClientTypeFromString_def ct_defs)
  from h3 ok r1 r2 r3 show ?thesis
    by blast
qed

section \<open>Properties of the client state contract\<close>

lemmas demo_defs = demo_client_def demo_variant_def demo_engine_def demo_store_def
  demo_cons_def

lemma verify_frozen:
  "IsFrozen cs \<Longrightarrow> verify eng cs store height prefix pf fct expected = Inl ClientFrozen"
  by (simp add: verify_def)

lemma handle_frozen: "IsFrozen cs \<Longrightarrow> handle v (cs, store) m = (cs, store)"
  by (cases m) (simp_all add: CheckHeaderAndUpdateState_def CheckMisbehaviourAndUpdateState_def)

lemma handle_all_frozen: "IsFrozen cs \<Longrightarrow> handle_all v (cs, store) ms = (cs, store)"
  by (induction ms) (simp_all add: handle_frozen)

lemma active_demo_accepts:
  "\<not> IsFrozen (demo_client 0)"
  "CheckHeaderAndUpdateState demo_variant (demo_client 0) demo_store (NewHeight 0 101)
     = Inr ((demo_client 0)\<lparr>latest_height := NewHeight 0 101\<rparr>, demo_cons)"
  "CheckHeaderAndUpdateState demo_variant (demo_client 0) demo_store (NewHeight 0 50)
     = Inl InvalidHeader"
  "VerifyPacketCommitment demo_engine (demo_client 0) demo_store (NewHeight 0 100) () 0
     ''port'' ''channel'' 1 [] = Inr ()"
  "VerifyPacketCommitment demo_engine (demo_client 0) demo_store (NewHeight 0 99) () 0
     ''port'' ''channel'' 1 [] = Inl ConsensusStateNotFound"
  "IsFrozen (fst (handle demo_variant (demo_client 0, demo_store) (SubmitMisbehaviour 7)))"
  by (simp_all add: IsFrozen_def CheckHeaderAndUpdateState_def VerifyPacketCommitment_def
      verify_def demo_defs NewHeight_def GT_def Compare_def to_int64_def
      CheckMisbehaviourAndUpdateState_def)

text \<open>
  Claim C9. Freezing is terminal: for every frozen client state,
  \<open>CheckHeaderAndUpdateState\<close> and each of the eight \<open>Verify*\<close> operations fail
  with \<open>ClientFrozen\<close> whatever the header or proof, the misbehaviour check fails
  in the same way, and after any sequence of messages the client state is the
  same, still frozen one.
\<close>

theorem frozen_is_terminal:
  assumes "IsFrozen cs"
  shows "CheckHeaderAndUpdateState v cs store header = Inl ClientFrozen
    \<and> CheckMisbehaviourAndUpdateState v cs store misbehaviour = Inl ClientFrozen
    \<and> VerifyClientState eng cs store height prefix clientID pf clientState = Inl ClientFrozen
    \<and> VerifyClientConsensusState eng cs store height clientID consensusHeight prefix pf
         consensusState = Inl ClientFrozen
    \<and> VerifyConnectionState eng cs store height prefix pf connectionID connectionEnd
         = Inl ClientFrozen
    \<and> VerifyChannelState eng cs store height prefix pf portID channelID channel
         = Inl ClientFrozen
    \<and> VerifyPacketCommitment eng cs store height prefix pf portID channelID sequence
         commitmentBytes = Inl ClientFrozen
    \<and> VerifyPacketAcknowledgement eng cs store height prefix pf portID channelID sequence
         acknowledgement = Inl ClientFrozen
    \<and> VerifyPacketAcknowledgementAbsence eng cs store height prefix pf portID channelID
         sequence = Inl ClientFrozen
    \<and> VerifyNextSequenceRecv eng cs store height prefix pf portID channelID nextSequenceRecv
         = Inl ClientFrozen
    \<and> handle_all v (cs, store) msgs = (cs, store)
    \<and> IsFrozen (fst (handle_all v (cs, store) msgs))"
proof -
  have upd: "CheckHeaderAndUpdateState v cs store header = Inl ClientFrozen"
    and mis: "CheckMisbehaviourAndUpdateState v cs store misbehaviour = Inl ClientFrozen"
    using assms
    by (simp_all add: CheckHeaderAndUpdateState_def CheckMisbehaviourAndUpdateState_def)
  have run: "handle_all v (cs, store) msgs = (cs, store)"
    using assms by (rule handle_all_frozen)
  show ?thesis
    unfolding VerifyClientState_def VerifyClientConsensusState_def VerifyConnectionState_def
      VerifyChannelState_def VerifyPacketCommitment_def VerifyPacketAcknowledgement_def
      VerifyPacketAcknowledgementAbsence_def VerifyNextSequenceRecv_def
    using assms by (simp add: upd mis run verify_frozen)
qed

theorem frozen_is_terminal_witness:
  "IsFrozen (demo_client 7)
   \<and> CheckHeaderAndUpdateState demo_variant (demo_client 7) demo_store (NewHeight 0 101)
        = Inl ClientFrozen
   \<and> VerifyPacketCommitment demo_engine (demo_client 7) demo_store (NewHeight 0 100) () 0
        ''port'' ''channel'' 1 [] = Inl ClientFrozen
   \<and> IsFrozen (fst (handle_all demo_variant (demo_client 7, demo_store)
        [UpdateClient (NewHeight 0 101), SubmitMisbehaviour 0]))"
proof -
  have fr: "IsFrozen (demo_client 7)"
    by (simp add: IsFrozen_def demo_client_def)
  from frozen_is_terminal [OF fr, where v = demo_variant and store = demo_store
      and header = "NewHeight 0 101" and eng = demo_engine and height = "NewHeight 0 100"
      and prefix = "()" and pf = 0 and portID = "''port''" and channelID = "''channel''"
      and sequence = 1 and commitmentBytes = "[]"
      and msgs = "[UpdateClient (NewHeight 0 101), SubmitMisbehaviour 0]"]
  show ?thesis using fr by blast
qed

end
